theory Spec2Isabelle
  imports Complex_Main "HOL-Library.Word"
begin

unbundle bit_operations_syntax

section \<open>Go values\<close>

text \<open>
  A Go string is a sequence of bytes: \<^typ>\<open>string\<close>, with \<^const>\<open>length\<close> for \<open>len\<close>.
  A Go slice is either nil or a sequence; \<open>len\<close> is 0 for both nil and the empty slice.
\<close>

type_synonym 'a slice = "'a list option"

definition len :: "'a slice \<Rightarrow> nat" where
  "len xs = (case xs of None \<Rightarrow> 0 | Some ys \<Rightarrow> length ys)"

text \<open>
  A finite \<open>float64\<close> is represented by the real number that a source literal or a parsed
  text denotes; the infinities and NaN, which \<open>strconv.ParseFloat\<close> returns for texts such
  as \<open>Inf\<close> and \<open>NaN\<close>, stand beside them. The program never computes with these values:
  it stores them and hands them to the serialiser.
\<close>

datatype float64 = Finite real | PosInf | NegInf | NaN

text \<open>
  The dynamically typed values (\<open>interface{}\<close>) the program handles: the TTS parameter
  bag it builds, and what \<open>encoding/json\<close> decodes into \<open>map[string]interface{}\<close>.
\<close>

datatype any =
    AnyNil
  | AnyBool bool
  | AnyFloat64 float64
  | AnyString string
  | AnySlice "any list"
  | AnyMap "string \<Rightarrow> any option"

text \<open>
  A Go \<open>error\<close> value is represented by its message. A function that may also stop with
  a runtime panic returns a \<open>fault\<close>.
\<close>

datatype fault = Error string | Panic

section \<open>convoai-types.go\<close>

record InviteAgentRequest =
  RequesterID :: string
  ChannelName :: string
  RtcCodec :: "int option"
  InputModalities :: "string slice"
  OutputModalities :: "string slice"

record RemoveAgentRequest =
  AgentID :: string

type_synonym TTSVendor = string

definition TTSVendorMicrosoft :: TTSVendor where
  "TTSVendorMicrosoft = ''microsoft''"

definition TTSVendorElevenLabs :: TTSVendor where
  "TTSVendorElevenLabs = ''elevenlabs''"

record TTSConfig =
  Vendor :: TTSVendor
  Params :: any

record ASR =
  Language :: string
  Task :: string

record SystemMessage =
  Role :: string
  Content :: string

record LLMParams =
  Model :: string
  MaxTokens :: int
  Temperature :: float64
  TopP :: float64

record LLM =
  URL :: string
  APIKey :: string
  SystemMessages :: "SystemMessage slice"
  GreetingMessage :: string
  FailureMessage :: string
  MaxHistory :: int
  Params :: LLMParams
  InputModalities :: "string slice"
  OutputModalities :: "string slice"

record VAD =
  SilenceDurationMS :: int
  SpeechDurationMS :: int
  Threshold :: float64
  InterruptDurationMS :: int
  PrefixPaddingMS :: int

record Features =
  EnableAIVAD :: bool
  EnableBHVS :: bool

record Properties =
  Channel :: string
  Token :: string
  AgentRtcUID :: string
  RemoteRtcUIDs :: "string slice"
  EnableStringUID :: bool
  IdleTimeout :: int
  ASR :: ASR
  LLM :: LLM
  TTS :: TTSConfig
  VAD :: VAD
  AdvancedFeatures :: Features

record AgoraStartRequest =
  Name :: string
  Properties :: Properties

record InviteAgentResponse =
  AgentID :: string
  CreateTS :: int
  Status :: string

record RemoveAgentResponse =
  Success :: bool
  AgentID :: string

text \<open>
  The two vendor blocks are pointers in \<open>ConvoAIConfig\<close>: \<open>None\<close> is the nil pointer.
  \<open>getTTSConfig\<close>, the loader and the tests read the ElevenLabs key as field \<open>Key\<close>.
\<close>

record MicrosoftTTSConfig =
  Key :: string
  Region :: string
  VoiceName :: string
  Rate :: string
  Volume :: string

record ElevenLabsTTSConfig =
  Key :: string
  VoiceID :: string
  ModelID :: string

record ConvoAIConfig =
  AppID :: string
  AppCertificate :: string
  CustomerID :: string
  CustomerSecret :: string
  BaseURL :: string
  AgentUID :: string
  LLMModel :: string
  LLMURL :: string
  LLMToken :: string
  TTSVendor :: string
  MicrosoftTTS :: "MicrosoftTTSConfig option"
  ElevenLabsTTS :: "ElevenLabsTTSConfig option"
  InputModalities :: string
  OutputModalities :: string

section \<open>Collaborators outside the package\<close>

text \<open>\<open>token_service.TokenRequest\<close>, the argument of the token-issuing capability.\<close>

record TokenRequest =
  TokenType :: string
  Channel :: string
  RtcRole :: string
  Uid :: string
  ExpirationSeconds :: int

text \<open>What the program puts into a \<open>*http.Request\<close> and reads from a \<open>*http.Response\<close>.\<close>

record http_request =
  Method :: string
  URL :: string
  Header :: "string \<Rightarrow> string list option"
  Body :: "string option"

record http_response =
  StatusCode :: int
  Body :: string

text \<open>
  The service value: its configuration and the \<open>TokenGenerator\<close> interface, whose single
  method \<open>GenRtcToken\<close> returns a token or an error.
\<close>

record ConvoAIService =
  config :: ConvoAIConfig
  tokenService :: "TokenRequest \<Rightarrow> string + string"

text \<open>
  The standard library and the outside world, as far as the package calls them. Each
  field is a parameter of the model:
  \<^item> \<open>ParseFloat s\<close> is \<open>strconv.ParseFloat(s, 64)\<close>: the error's message or the number;
  \<^item> \<open>EncodeToString\<close> is \<open>base64.StdEncoding.EncodeToString\<close>;
  \<^item> \<open>Marshal\<close> is \<open>json.Marshal\<close> on the start request;
  \<^item> \<open>NewRequestError method url\<close> is the error of \<open>http.NewRequest\<close>, if any;
  \<^item> \<open>Do\<close> is \<open>(*http.Client).Do\<close>: a transport error or the response;
  \<^item> \<open>Decode\<close> is \<open>json.NewDecoder(body).Decode\<close> into a \<open>map[string]interface{}\<close>;
  \<^item> \<open>UnixNano\<close> and \<open>Unix\<close> are the two readings of \<open>time.Now()\<close>, the first when the
    session name is made, the second when the response is made;
  \<^item> \<open>Read n\<close> is the content of an \<open>n\<close>-byte buffer after \<open>crypto/rand.Read\<close>;
  \<^item> \<open>TrimSpace\<close> is \<open>strings.TrimSpace\<close>.
\<close>

record runtime =
  ParseFloat :: "string \<Rightarrow> string + float64"
  EncodeToString :: "string \<Rightarrow> string"
  Marshal :: "AgoraStartRequest \<Rightarrow> string + string"
  NewRequestError :: "string \<Rightarrow> string \<Rightarrow> string option"
  Do :: "http_request \<Rightarrow> string + http_response"
  Decode :: "string \<Rightarrow> string + (string \<Rightarrow> any option)"
  UnixNano :: int
  Unix :: int
  Read :: "nat \<Rightarrow> 8 word list"
  TrimSpace :: "string \<Rightarrow> string"

section \<open>convoai-utils.go\<close>

definition getBasicAuth :: "runtime \<Rightarrow> ConvoAIService \<Rightarrow> string" where
  "getBasicAuth rt s =
     (let auth = CustomerID (config s) @ '':'' @ CustomerSecret (config s)
      in ''Basic '' @ EncodeToString rt auth)"

subsection \<open>Ranging over a string\<close>

text \<open>
  \<open>for _, r := range s\<close> walks the runes of \<open>s\<close>: a byte below \<open>0x80\<close> is a rune by
  itself, and at any other byte the runtime's \<open>decoderune\<close> decodes a UTF-8 sequence of
  two to four bytes, or yields the replacement rune and moves on by one byte when the
  bytes are not a valid sequence. \<open>decoderune s\<close> is the rune at the start of \<open>s\<close> and the
  number of bytes it takes.
\<close>

type_synonym rune = int

definition runeError :: rune where
  "runeError = 0xFFFD"

definition maxRune :: rune where
  "maxRune = 0x10FFFF"

definition byte :: "string \<Rightarrow> nat \<Rightarrow> int" where
  "byte s i = of_char (s ! i)"

definition continuation :: "int \<Rightarrow> bool" where
  "continuation c \<longleftrightarrow> 0x80 \<le> c \<and> c \<le> 0xBF"

definition decoderune :: "string \<Rightarrow> rune \<times> nat" where
  "decoderune s =
     (if s = [] then (runeError, 1)
      else if 0xC0 \<le> byte s 0 \<and> byte s 0 < 0xE0 then
        (if length s > 1 \<and> continuation (byte s 1) then
           (let r = push_bit 6 (byte s 0 AND 0x1F) OR (byte s 1 AND 0x3F)
            in if 0x7F < r then (r, 2) else (runeError, 1))
         else (runeError, 1))
      else if 0xE0 \<le> byte s 0 \<and> byte s 0 < 0xF0 then
        (if length s > 2 \<and> continuation (byte s 1) \<and> continuation (byte s 2) then
           (let r = push_bit 12 (byte s 0 AND 0x0F) OR push_bit 6 (byte s 1 AND 0x3F)
                      OR (byte s 2 AND 0x3F)
            in if 0x7FF < r \<and> \<not> (0xD800 \<le> r \<and> r \<le> 0xDFFF) then (r, 3)
               else (runeError, 1))
         else (runeError, 1))
      else if 0xF0 \<le> byte s 0 \<and> byte s 0 < 0xF8 then
        (if length s > 3 \<and> continuation (byte s 1) \<and> continuation (byte s 2)
            \<and> continuation (byte s 3) then
           (let r = push_bit 18 (byte s 0 AND 0x07) OR push_bit 12 (byte s 1 AND 0x3F)
                      OR push_bit 6 (byte s 2 AND 0x3F) OR (byte s 3 AND 0x3F)
            in if 0xFFFF < r \<and> r \<le> maxRune then (r, 4) else (runeError, 1))
         else (runeError, 1))
      else (runeError, 1))"

subsection \<open>isStringUID\<close>

text \<open>
  The loop of \<open>isStringUID\<close>: at each position the next rune \<open>r\<close> is taken, the function
  returns true if \<open>r < '0' || r > '9'\<close>, and otherwise goes on behind that rune; at the
  end of the string it returns false.
\<close>

function isStringUID :: "string \<Rightarrow> bool" where
  "isStringUID [] = False"
| "isStringUID (c # t) =
     (let d = (if (of_char c :: int) < 0x80 then (of_char c, 1) else decoderune (c # t))
      in if fst d < of_char CHR ''0'' \<or> fst d > of_char CHR ''9'' then True
         else isStringUID (drop (snd d) (c # t)))"
  by pat_completeness auto
termination
proof (relation "measure length")
  show "wf (measure length)"
    by simp
next
  fix c t and d :: "rune \<times> nat"
  assume "d = (if (of_char c :: int) < 0x80 then (of_char c, 1) else decoderune (c # t))"
  then have "0 < snd d"
    by (simp add: decoderune_def Let_def)
  then show "(drop (snd d) (c # t), c # t) \<in> measure length"
    by simp
qed

subsection \<open>getTTSConfig and the validators\<close>

definition getTTSConfig :: "runtime \<Rightarrow> ConvoAIService \<Rightarrow> string + TTSConfig" where
  "getTTSConfig rt s =
     (if TTSVendor (config s) = TTSVendorMicrosoft then
        (case MicrosoftTTS (config s) of
           None \<Rightarrow> Inl ''missing Microsoft TTS configuration''
         | Some ms \<Rightarrow>
             if MicrosoftTTSConfig.Key ms = '''' \<or> Region ms = '''' \<or> VoiceName ms = '''' \<or>
                Rate ms = '''' \<or> Volume ms = ''''
             then Inl ''missing Microsoft TTS configuration''
             else
               (case ParseFloat rt (Rate ms) of
                  Inl err \<Rightarrow> Inl (''invalid rate value: '' @ err)
                | Inr rate \<Rightarrow>
                    (case ParseFloat rt (Volume ms) of
                       Inl err \<Rightarrow> Inl (''invalid volume value: '' @ err)
                     | Inr volume \<Rightarrow>
                         Inr \<lparr>Vendor = TTSVendorMicrosoft,
                              TTSConfig.Params = AnyMap
                                [''key'' \<mapsto> AnyString (MicrosoftTTSConfig.Key ms),
                                 ''region'' \<mapsto> AnyString (Region ms),
                                 ''voice_name'' \<mapsto> AnyString (VoiceName ms),
                                 ''rate'' \<mapsto> AnyFloat64 rate,
                                 ''volume'' \<mapsto> AnyFloat64 volume]\<rparr>)))
      else if TTSVendor (config s) = TTSVendorElevenLabs then
        (case ElevenLabsTTS (config s) of
           None \<Rightarrow> Inl ''missing ElevenLabs TTS configuration''
         | Some el \<Rightarrow>
             if ElevenLabsTTSConfig.Key el = '''' \<or> ModelID el = '''' \<or> VoiceID el = ''''
             then Inl ''missing ElevenLabs TTS configuration''
             else
               Inr \<lparr>Vendor = TTSVendorElevenLabs,
                    TTSConfig.Params = AnyMap
                      [''api_key'' \<mapsto> AnyString (ElevenLabsTTSConfig.Key el),
                       ''model_id'' \<mapsto> AnyString (ModelID el),
                       ''voice_id'' \<mapsto> AnyString (VoiceID el)]\<rparr>)
      else Inl (''unsupported TTS vendor: '' @ TTSVendor (config s)))"

definition validateInviteRequest :: "InviteAgentRequest \<Rightarrow> string option" where
  "validateInviteRequest req =
     (if RequesterID req = '''' then Some ''requester_id is required''
      else if ChannelName req = '''' then Some ''channel_name is required''
      else if length (ChannelName req) < 3 \<or> length (ChannelName req) > 64
        then Some ''channel_name length must be between 3 and 64 characters''
      else None)"

definition validateRemoveRequest :: "RemoveAgentRequest \<Rightarrow> string option" where
  "validateRemoveRequest req =
     (if RemoveAgentRequest.AgentID req = '''' then Some ''agent_id is required'' else None)"

text \<open>
  The verb \<open>%d\<close> of \<open>fmt\<close> on an integer: decimal digits, with a minus sign for a
  negative number.
\<close>

fun fmt_nat :: "nat \<Rightarrow> string" where
  "fmt_nat n =
     (if n < 10 then [''0123456789'' ! n] else fmt_nat (n div 10) @ [''0123456789'' ! (n mod 10)])"

declare fmt_nat.simps [simp del]

definition fmt_d :: "int \<Rightarrow> string" where
  "fmt_d i = (if i < 0 then ''-'' @ fmt_nat (nat (- i)) else fmt_nat (nat i))"

text \<open>
  \<open>getRemoteRtcUIDs\<close>; the special case for \<open>"0"\<close> is commented out in the source.
\<close>

definition getRemoteRtcUIDs :: "string \<Rightarrow> string slice" where
  "getRemoteRtcUIDs requesterID = Some [requesterID]"

text \<open>
  \<open>randomString\<close>: the buffer of \<open>n\<close> zero bytes is handed to \<open>rand.Read\<close>, whose result
  is ignored, and every byte is then replaced by a letter.
\<close>

definition letters :: string where
  "letters = ''abcdefghijklmnopqrstuvwxyz''"

definition randomString :: "runtime \<Rightarrow> nat \<Rightarrow> string" where
  "randomString rt n =
     (let b = take n (Read rt n @ replicate n 0)
      in map (\<lambda>x. letters ! (unat x mod length letters)) b)"

subsection \<open>HandleInviteAgent\<close>

text \<open>
  The calls a handler makes, in the order it makes them: to the token issuer, to the
  vendor resolver \<open>getTTSConfig\<close>, to the serialiser with the start request it built, and to
  the agent platform through the HTTP client. The debug output on standard output is left
  out.
\<close>

datatype call =
    GenRtcToken TokenRequest
  | GetTTSConfig
  | JsonMarshal AgoraStartRequest
  | ClientDo http_request

text \<open>
  The start request \<open>agoraReq\<close> that \<open>HandleInviteAgent\<close> builds from the token and the TTS
  configuration it obtained (the statements from the system message to the end of the
  struct literal).
\<close>

definition agoraReq ::
  "runtime \<Rightarrow> ConvoAIService \<Rightarrow> InviteAgentRequest \<Rightarrow> string \<Rightarrow> TTSConfig \<Rightarrow> AgoraStartRequest"
where
  "agoraReq rt s req token ttsConfig =
     (let systemMessage =
            \<lparr>Role = ''system'',
             Content = ''You are a helpful assistant. Pretend that the text input is audio, and you are responding to it. Speak fast, clearly, and concisely.''\<rparr>;
          inputModalities =
            (if len (InviteAgentRequest.InputModalities req) = 0 then Some [''text'']
             else InviteAgentRequest.InputModalities req);
          outputModalities =
            (if len (InviteAgentRequest.OutputModalities req) = 0 then Some [''text'', ''audio'']
             else InviteAgentRequest.OutputModalities req)
      in \<lparr>Name = ''agent-'' @ fmt_d (UnixNano rt) @ ''-'' @ randomString rt 6,
          Properties =
            \<lparr>Properties.Channel = ChannelName req,
             Token = token,
             AgentRtcUID = AgentUID (config s),
             RemoteRtcUIDs = getRemoteRtcUIDs (RequesterID req),
             EnableStringUID = isStringUID (RequesterID req),
             IdleTimeout = 30,
             ASR = \<lparr>Language = ''en-US'', Task = ''conversation''\<rparr>,
             LLM =
               \<lparr>LLM.URL = LLMURL (config s),
                APIKey = LLMToken (config s),
                SystemMessages = Some [systemMessage],
                GreetingMessage = ''Hello! How can I assist you today?'',
                FailureMessage = ''Please wait a moment.'',
                MaxHistory = 10,
                LLM.Params =
                  \<lparr>Model = LLMModel (config s),
                   MaxTokens = 1024,
                   Temperature = Finite 0.7,
                   TopP = Finite 0.95\<rparr>,
                LLM.InputModalities = inputModalities,
                LLM.OutputModalities = outputModalities\<rparr>,
             TTS = ttsConfig,
             VAD =
               \<lparr>SilenceDurationMS = 480,
                SpeechDurationMS = 15000,
                Threshold = Finite 0.5,
                InterruptDurationMS = 160,
                PrefixPaddingMS = 300\<rparr>,
             AdvancedFeatures = \<lparr>EnableAIVAD = False, EnableBHVS = False\<rparr>\<rparr>\<rparr>)"

text \<open>
  Three parts of \<open>HandleInviteAgent\<close>, named for the statements below: the token request
  of its first statement, the URL of the join endpoint, and the HTTP request after its
  two headers are set.
\<close>

definition tokenReq :: "InviteAgentRequest \<Rightarrow> TokenRequest" where
  "tokenReq req =
     \<lparr>TokenType = ''rtc'', Channel = ChannelName req, RtcRole = ''publisher'',
      Uid = ''0'', ExpirationSeconds = 0\<rparr>"

definition joinURL :: "ConvoAIService \<Rightarrow> string" where
  "joinURL s = BaseURL (config s) @ ''/'' @ AppID (config s) @ ''/join''"

definition joinRequest :: "runtime \<Rightarrow> ConvoAIService \<Rightarrow> string \<Rightarrow> http_request" where
  "joinRequest rt s jsonData =
     \<lparr>Method = ''POST'', URL = joinURL s,
      Header = [''Content-Type'' \<mapsto> [''application/json''],
                ''Authorization'' \<mapsto> [getBasicAuth rt s]],
      http_request.Body = Some jsonData\<rparr>"

text \<open>
  \<open>HandleInviteAgent\<close> returns the calls it made and either the response, an error, or a
  panic: the type assertion \<open>agoraResp["agent_id"].(string)\<close> has one result only, so it
  panics when the entry is missing or is not a string. In the error for a status other
  than 200, \<open>%v\<close> prints the header map with its keys in order.
\<close>

definition HandleInviteAgent ::
  "runtime \<Rightarrow> ConvoAIService \<Rightarrow> InviteAgentRequest \<Rightarrow> call list \<times> (fault + InviteAgentResponse)"
where
  "HandleInviteAgent rt s req =
     (case tokenService s (tokenReq req) of
        Inl err \<Rightarrow>
          ([GenRtcToken (tokenReq req)], Inl (Error (''failed to generate token: '' @ err)))
      | Inr token \<Rightarrow>
     (case getTTSConfig rt s of
        Inl err \<Rightarrow>
          ([GenRtcToken (tokenReq req), GetTTSConfig],
           Inl (Error (''failed to get TTS config: '' @ err)))
      | Inr ttsConfig \<Rightarrow>
     (let agoraReq' = agoraReq rt s req token ttsConfig;
          built = [GenRtcToken (tokenReq req), GetTTSConfig, JsonMarshal agoraReq']
      in case Marshal rt agoraReq' of
        Inl err \<Rightarrow> (built, Inl (Error (''failed to marshal request: '' @ err)))
      | Inr jsonData \<Rightarrow>
     (let url = joinURL s
      in case NewRequestError rt ''POST'' url of
        Some err \<Rightarrow> (built, Inl (Error (''failed to create request: '' @ err)))
      | None \<Rightarrow>
     (let httpReq = joinRequest rt s jsonData;
          sent = built @ [ClientDo httpReq]
      in case Do rt httpReq of
        Inl err \<Rightarrow>
          (sent, Inl (Error (''failed to send request: '' @ err @ '' (URL: '' @ url @ '')'')))
      | Inr resp \<Rightarrow>
          if StatusCode resp \<noteq> 200 then
            (sent,
             Inl (Error (''failed to start conversation: status='' @ fmt_d (StatusCode resp)
               @ '', body='' @ Body resp @ '', url='' @ url
               @ '', headers=map[Authorization:['' @ getBasicAuth rt s
               @ ''] Content-Type:[application/json]]'')))
          else
            (case Decode rt (Body resp) of
               Inl err \<Rightarrow> (sent, Inl (Error (''failed to decode response: '' @ err)))
             | Inr agoraResp \<Rightarrow>
                 (case agoraResp ''agent_id'' of
                    Some (AnyString agentID) \<Rightarrow>
                      (sent,
                       Inr \<lparr>InviteAgentResponse.AgentID = agentID,
                            CreateTS = Unix rt,
                            Status = ''RUNNING''\<rparr>)
                  | _ \<Rightarrow> (sent, Inl Panic))))))))"

subsection \<open>HandleRemoveAgent\<close>

definition leaveURL :: "ConvoAIService \<Rightarrow> RemoveAgentRequest \<Rightarrow> string" where
  "leaveURL s req =
     BaseURL (config s) @ ''/'' @ AppID (config s) @ ''/agents/''
       @ RemoveAgentRequest.AgentID req @ ''/leave''"

definition leaveRequest :: "runtime \<Rightarrow> ConvoAIService \<Rightarrow> RemoveAgentRequest \<Rightarrow> http_request" where
  "leaveRequest rt s req =
     (let auth = getBasicAuth rt s
      in \<lparr>Method = ''POST'', URL = leaveURL s req,
          Header = [''Content-Type'' \<mapsto> [''application/json''],
                    ''Authorization'' \<mapsto> [auth]],
          http_request.Body = None\<rparr>)"

definition HandleRemoveAgent ::
  "runtime \<Rightarrow> ConvoAIService \<Rightarrow> RemoveAgentRequest \<Rightarrow> call list \<times> (fault + RemoveAgentResponse)"
where
  "HandleRemoveAgent rt s req =
     (let url = leaveURL s req
      in case NewRequestError rt ''POST'' url of
        Some err \<Rightarrow> ([], Inl (Error (''failed to create request: '' @ err)))
      | None \<Rightarrow>
     (let httpReq = leaveRequest rt s req
      in case Do rt httpReq of
        Inl err \<Rightarrow> ([ClientDo httpReq], Inl (Error (''failed to send request: '' @ err)))
      | Inr resp \<Rightarrow>
          if StatusCode resp \<noteq> 200 then
            ([ClientDo httpReq],
             Inl (Error (''failed to remove agent: '' @ fmt_d (StatusCode resp))))
          else
            ([ClientDo httpReq],
             Inr \<lparr>Success = True, AgentID = RemoveAgentRequest.AgentID req\<rparr>)))"

subsection \<open>The route handlers\<close>

text \<open>
  A handler answers with a status code and a JSON body (\<open>c.JSON\<close>), unless the operation
  it calls panics. Its argument is the result of \<open>c.ShouldBindJSON\<close>: the binding error or
  the request read from the body.
\<close>

datatype body = ErrorBody string | InviteBody InviteAgentResponse | RemoveBody RemoveAgentResponse

datatype answer = JSON int body | Panicked

definition InviteAgent ::
  "runtime \<Rightarrow> ConvoAIService \<Rightarrow> string + InviteAgentRequest \<Rightarrow> call list \<times> answer"
where
  "InviteAgent rt s bound =
     (case bound of
        Inl err \<Rightarrow> ([], JSON 400 (ErrorBody err))
      | Inr req \<Rightarrow>
          (case validateInviteRequest req of
             Some err \<Rightarrow> ([], JSON 400 (ErrorBody err))
           | None \<Rightarrow>
               (case HandleInviteAgent rt s req of
                  (calls, Inl (Error err)) \<Rightarrow> (calls, JSON 500 (ErrorBody err))
                | (calls, Inl Panic) \<Rightarrow> (calls, Panicked)
                | (calls, Inr response) \<Rightarrow> (calls, JSON 200 (InviteBody response)))))"

definition RemoveAgent ::
  "runtime \<Rightarrow> ConvoAIService \<Rightarrow> string + RemoveAgentRequest \<Rightarrow> call list \<times> answer"
where
  "RemoveAgent rt s bound =
     (case bound of
        Inl err \<Rightarrow> ([], JSON 400 (ErrorBody err))
      | Inr req \<Rightarrow>
          (case validateRemoveRequest req of
             Some err \<Rightarrow> ([], JSON 400 (ErrorBody err))
           | None \<Rightarrow>
               (case HandleRemoveAgent rt s req of
                  (calls, Inl (Error err)) \<Rightarrow> (calls, JSON 500 (ErrorBody err))
                | (calls, Inl Panic) \<Rightarrow> (calls, Panicked)
                | (calls, Inr response) \<Rightarrow> (calls, JSON 200 (RemoveBody response)))))"

section \<open>The validation package\<close>







section \<open>Test doubles\<close>

text \<open>
  The service of the package's tests (\<open>NewTestConvoAIService\<close> with \<open>MockTokenService\<close>),
  and a runtime for running the model on it:
  \<^item> \<open>testParseFloat\<close> is \<open>strconv.ParseFloat\<close> on the texts of the examples, \<open>"1.0"\<close> and
    \<open>"fast"\<close>; it is not meant for other texts;
  \<^item> \<open>testEncodeToString\<close> is the one base64 value of \<open>TestGetBasicAuth\<close>;
  \<^item> the serialiser is replaced by a fixed text (the program only forwards it);
  \<^item> the platform is \<open>MockHTTPClient\<close>, answering 200 with an \<open>agent_id\<close>, and
    \<open>testDecode\<close> decodes that body and the body \<open>{}\<close>;
  \<^item> the clock and the random bytes are fixed;
  \<^item> \<open>testTrimSpace\<close> is \<open>strings.TrimSpace\<close> on texts whose only white space is the
    space character.
\<close>

definition MockTokenService :: "TokenRequest \<Rightarrow> string + string" where
  "MockTokenService req = Inr ''mock-rtc-token''"

definition testMicrosoft :: MicrosoftTTSConfig where
  "testMicrosoft =
     \<lparr>MicrosoftTTSConfig.Key = ''test-ms-key'', Region = ''eastus'',
      VoiceName = ''en-US-AriaNeural'', Rate = ''1.0'', Volume = ''1.0''\<rparr>"

definition testConfig :: ConvoAIConfig where
  "testConfig =
     \<lparr>AppID = ''test-app-id'',
      AppCertificate = ''test-app-cert'',
      CustomerID = ''test-customer-id'',
      CustomerSecret = ''test-customer-secret'',
      BaseURL = ''https://api.example.com'',
      AgentUID = ''123456'',
      LLMModel = ''gpt-3.5-turbo'',
      LLMURL = ''https://api.openai.com/v1/chat/completions'',
      LLMToken = ''test-llm-token'',
      TTSVendor = ''microsoft'',
      MicrosoftTTS = Some testMicrosoft,
      ElevenLabsTTS = None,
      InputModalities = [],
      OutputModalities = []\<rparr>"

definition NewTestConvoAIService :: ConvoAIService where
  "NewTestConvoAIService = \<lparr>config = testConfig, tokenService = MockTokenService\<rparr>"

definition testParseFloat :: "string \<Rightarrow> string + float64" where
  "testParseFloat s =
     (if s = ''1.0'' then Inr (Finite 1)
      else Inl (''strconv.ParseFloat: parsing '' @ [CHR 0x22] @ s @ [CHR 0x22]
                  @ '': invalid syntax''))"

definition testEncodeToString :: "string \<Rightarrow> string" where
  "testEncodeToString s =
     (if s = ''test-customer-id:test-customer-secret''
      then ''dGVzdC1jdXN0b21lci1pZDp0ZXN0LWN1c3RvbWVyLXNlY3JldA=='' else [])"

definition mockResponse :: string where
  \<open>mockResponse = ''{"agent_id": "test-agent-123"}''\<close>

definition MockHTTPClient :: "http_request \<Rightarrow> string + http_response" where
  "MockHTTPClient req = Inr \<lparr>StatusCode = 200, Body = mockResponse\<rparr>"

definition testDecode :: "string \<Rightarrow> string + (string \<Rightarrow> any option)" where
  "testDecode b =
     (if b = mockResponse then Inr [''agent_id'' \<mapsto> AnyString ''test-agent-123'']
      else if b = ''{}'' then Inr Map.empty
      else Inl ''invalid character'')"

definition testTrimSpace :: "string \<Rightarrow> string" where
  "testTrimSpace s =
     rev (dropWhile (\<lambda>c. c = CHR '' '') (rev (dropWhile (\<lambda>c. c = CHR '' '') s)))"

definition testRuntime :: runtime where
  "testRuntime =
     \<lparr>ParseFloat = testParseFloat,
      EncodeToString = testEncodeToString,
      Marshal = (\<lambda>r. Inr ''{}''),
      NewRequestError = (\<lambda>m u. None),
      Do = MockHTTPClient,
      Decode = testDecode,
      UnixNano = 1700000000000000000,
      Unix = 1700000000,
      Read = (\<lambda>n. replicate n 0),
      TrimSpace = testTrimSpace\<rparr>"

text \<open>Variations of the test service: other vendor settings and a failing token issuer.\<close>

definition withMicrosoft :: "MicrosoftTTSConfig \<Rightarrow> ConvoAIService" where
  "withMicrosoft ms =
     NewTestConvoAIService\<lparr>config := testConfig\<lparr>MicrosoftTTS := Some ms\<rparr>\<rparr>"

definition withVendor :: "string \<Rightarrow> ConvoAIService" where
  "withVendor v = NewTestConvoAIService\<lparr>config := testConfig\<lparr>TTSVendor := v\<rparr>\<rparr>"

definition FailingTokenService :: "TokenRequest \<Rightarrow> string + string" where
  "FailingTokenService req = Inl ''invalid: missing channel name''"

text \<open>
  The invitation and the removal of the end-to-end scenarios, the vendor block the test
  service resolves to, and a platform that answers with a given status and body.
\<close>

definition testRequest :: InviteAgentRequest where
  "testRequest =
     \<lparr>RequesterID = ''123'', ChannelName = ''test-channel'', RtcCodec = None,
      InviteAgentRequest.InputModalities = None,
      InviteAgentRequest.OutputModalities = None\<rparr>"

definition testTTS :: TTSConfig where
  "testTTS =
     \<lparr>Vendor = ''microsoft'',
      TTSConfig.Params = AnyMap
        [''key'' \<mapsto> AnyString ''test-ms-key'',
         ''region'' \<mapsto> AnyString ''eastus'',
         ''voice_name'' \<mapsto> AnyString ''en-US-AriaNeural'',
         ''rate'' \<mapsto> AnyFloat64 (Finite 1),
         ''volume'' \<mapsto> AnyFloat64 (Finite 1)]\<rparr>"

definition agentRemoval :: RemoveAgentRequest where
  "agentRemoval = \<lparr>RemoveAgentRequest.AgentID = ''agent-123abc''\<rparr>"

definition answering :: "int \<Rightarrow> string \<Rightarrow> runtime" where
  "answering status text =
     testRuntime\<lparr>Do := (\<lambda>req. Inr \<lparr>StatusCode = status, Body = text\<rparr>)\<rparr>"

section \<open>The UID classifier\<close>

lemma decoderune_rune: "0x7F < fst (decoderune s)"
  by (simp add: decoderune_def Let_def runeError_def)

lemma digit_byte:
  "(of_char c :: int) < of_char CHR ''0'' \<or> (of_char c :: int) > of_char CHR ''9''
     \<longleftrightarrow> c \<notin> set ''0123456789''"
proof -
  have "\<not> ((of_char c :: int) < 48 \<or> (of_char c :: int) > 57) \<longleftrightarrow> c \<in> set ''0123456789''"
  proof
    assume "\<not> ((of_char c :: int) < 48 \<or> (of_char c :: int) > 57)"
    then have "(of_char c :: int) \<in> {48, 49, 50, 51, 52, 53, 54, 55, 56, 57}"
      by (simp only: insert_iff empty_iff) arith
    then have "(of_char c :: int) \<in> of_char ` set ''0123456789''"
      by simp
    then obtain d where "d \<in> set ''0123456789''" and "(of_char c :: int) = of_char d"
      by blast
    then show "c \<in> set ''0123456789''"
      by (simp only: of_char_eq_iff)
  next
    assume "c \<in> set ''0123456789''"
    then show "\<not> ((of_char c :: int) < 48 \<or> (of_char c :: int) > 57)"
      by auto
  qed
  moreover have "(of_char CHR ''0'' :: int) = 48" and "(of_char CHR ''9'' :: int) = 57"
    by simp_all
  ultimately show ?thesis
    by (simp only:) blast
qed

lemma isStringUID_iff: "isStringUID s \<longleftrightarrow> (\<exists>c \<in> set s. c \<notin> set ''0123456789'')"
proof -
  define D where "D = set ''0123456789''"
  have byte: "(of_char c :: int) < of_char CHR ''0'' \<or> (of_char c :: int) > of_char CHR ''9''
      \<longleftrightarrow> c \<notin> D" for c
    unfolding D_def by (rule digit_byte)
  have "isStringUID s \<longleftrightarrow> (\<exists>c \<in> set s. c \<notin> D)"
  proof (induction s rule: isStringUID.induct)
    case 1
    show ?case by simp
  next
    case (2 c t)
    show ?case
    proof (cases "(of_char c :: int) < 0x80")
      case True
      then have "isStringUID (c # t) \<longleftrightarrow> c \<notin> D \<or> isStringUID t"
        using byte [of c] by (simp del: of_char_Char)
      moreover have "c \<in> D \<Longrightarrow> isStringUID t \<longleftrightarrow> (\<exists>c \<in> set t. c \<notin> D)"
        using "2.IH" [of "(of_char c, 1)"] True byte [of c] by simp
      ultimately show ?thesis
        by auto
    next
      case False
      have "0x7F < fst (decoderune (c # t))"
        by (rule decoderune_rune)
      with False have "isStringUID (c # t)"
        by simp
      moreover from False have "c \<notin> D"
        using byte [of c] by simp
      ultimately show ?thesis
        by simp
    qed
  qed
  then show ?thesis
    unfolding D_def .
qed

text \<open>
  C2. On a string made of the digits \<open>0\<close> to \<open>9\<close> only, the empty string and \<open>"0"\<close>
  among them, \<open>isStringUID\<close> returns false; on a string with at least one character
  that is none of these ten digits it returns true. The characters are the bytes of the
  string: a rune of several bytes has no digit among its bytes and is itself no digit.
\<close>

theorem isStringUID_classifies:
  "(set s \<subseteq> set ''0123456789'' \<longrightarrow> isStringUID s = False)
   \<and> ((\<exists>c \<in> set s. c \<notin> set ''0123456789'') \<longrightarrow> isStringUID s = True)"
  unfolding isStringUID_iff by blast

theorem isStringUID_classifies_witness:
  "isStringUID ''12345'' = False \<and> isStringUID [] = False \<and> isStringUID ''0'' = False
   \<and> isStringUID ''user123'' = True \<and> isStringUID ''123abc'' = True
   \<and> isStringUID [CHR ''1'', CHR 0xC3, CHR 0xA9] = True"
  using isStringUID_classifies [of "''12345''"] isStringUID_classifies [of "[]"]
    isStringUID_classifies [of "''0''"] isStringUID_classifies [of "''user123''"]
    isStringUID_classifies [of "''123abc''"]
    isStringUID_classifies [of "[CHR ''1'', CHR 0xC3, CHR 0xA9]"]
  by simp

section \<open>The vendor resolver\<close>

lemma getTTSConfig_microsoft_missing:
  assumes "TTSVendor (config s) = ''microsoft''"
    and "MicrosoftTTS (config s) = None \<or>
         (\<exists>ms. MicrosoftTTS (config s) = Some ms \<and>
           (MicrosoftTTSConfig.Key ms = [] \<or> Region ms = [] \<or> VoiceName ms = [] \<or>
            Rate ms = [] \<or> Volume ms = []))"
  shows "getTTSConfig rt s = Inl ''missing Microsoft TTS configuration''"
  using assms by (auto simp: getTTSConfig_def TTSVendorMicrosoft_def)

lemma getTTSConfig_microsoft_complete:
  assumes "TTSVendor (config s) = ''microsoft''"
    and "MicrosoftTTS (config s) = Some ms"
    and "MicrosoftTTSConfig.Key ms \<noteq> []" and "Region ms \<noteq> []" and "VoiceName ms \<noteq> []"
    and "Rate ms \<noteq> []" and "Volume ms \<noteq> []"
  shows "getTTSConfig rt s =
     (case ParseFloat rt (Rate ms) of
        Inl err \<Rightarrow> Inl (''invalid rate value: '' @ err)
      | Inr rate \<Rightarrow>
          (case ParseFloat rt (Volume ms) of
             Inl err \<Rightarrow> Inl (''invalid volume value: '' @ err)
           | Inr volume \<Rightarrow>
               Inr \<lparr>Vendor = ''microsoft'',
                    TTSConfig.Params = AnyMap
                      [''key'' \<mapsto> AnyString (MicrosoftTTSConfig.Key ms),
                       ''region'' \<mapsto> AnyString (Region ms),
                       ''voice_name'' \<mapsto> AnyString (VoiceName ms),
                       ''rate'' \<mapsto> AnyFloat64 rate,
                       ''volume'' \<mapsto> AnyFloat64 volume]\<rparr>))"
  using assms by (simp add: getTTSConfig_def TTSVendorMicrosoft_def split: sum.splits)

lemma getTTSConfig_elevenlabs_missing:
  assumes "TTSVendor (config s) = ''elevenlabs''"
    and "ElevenLabsTTS (config s) = None \<or>
         (\<exists>el. ElevenLabsTTS (config s) = Some el \<and>
           (ElevenLabsTTSConfig.Key el = [] \<or> ModelID el = [] \<or> VoiceID el = []))"
  shows "getTTSConfig rt s = Inl ''missing ElevenLabs TTS configuration''"
  using assms
  by (auto simp: getTTSConfig_def TTSVendorMicrosoft_def TTSVendorElevenLabs_def)

lemma getTTSConfig_elevenlabs_complete:
  assumes "TTSVendor (config s) = ''elevenlabs''"
    and "ElevenLabsTTS (config s) = Some el"
    and "ElevenLabsTTSConfig.Key el \<noteq> []" and "ModelID el \<noteq> []" and "VoiceID el \<noteq> []"
  shows "getTTSConfig rt s =
     Inr \<lparr>Vendor = ''elevenlabs'',
          TTSConfig.Params = AnyMap
            [''api_key'' \<mapsto> AnyString (ElevenLabsTTSConfig.Key el),
             ''model_id'' \<mapsto> AnyString (ModelID el),
             ''voice_id'' \<mapsto> AnyString (VoiceID el)]\<rparr>"
  using assms by (simp add: getTTSConfig_def TTSVendorMicrosoft_def TTSVendorElevenLabs_def)

lemma getTTSConfig_unsupported:
  assumes "TTSVendor (config s) \<noteq> ''microsoft''" and "TTSVendor (config s) \<noteq> ''elevenlabs''"
  shows "getTTSConfig rt s = Inl (''unsupported TTS vendor: '' @ TTSVendor (config s))"
  using assms by (simp add: getTTSConfig_def TTSVendorMicrosoft_def TTSVendorElevenLabs_def)

text \<open>
  C1. With the vendor tag \<open>microsoft\<close>: when the Microsoft block is absent or one of key,
  region, voice name, rate, volume is empty, \<open>getTTSConfig\<close> fails. When all five are
  non-empty, the rate is parsed first: if it does not parse, the error is
  \<open>invalid rate value\<close> followed by the parser's message; if it parses and the volume does
  not, the error is \<open>invalid volume value\<close> followed by the parser's message; in both
  cases there is no payload. If both parse, the result is a payload tagged \<open>microsoft\<close>
  whose parameters hold key, region and voice name as strings and the parsed numbers, not
  the texts, under \<open>rate\<close> and \<open>volume\<close>.
\<close>

theorem getTTSConfig_microsoft:
  assumes "TTSVendor (config s) = ''microsoft''"
  shows
    "(MicrosoftTTS (config s) = None \<longrightarrow> (\<exists>e. getTTSConfig rt s = Inl e))
     \<and> (\<forall>ms. MicrosoftTTS (config s) = Some ms \<longrightarrow>
          ((MicrosoftTTSConfig.Key ms = [] \<or> Region ms = [] \<or> VoiceName ms = [] \<or>
            Rate ms = [] \<or> Volume ms = []) \<longrightarrow> (\<exists>e. getTTSConfig rt s = Inl e))
          \<and> (MicrosoftTTSConfig.Key ms \<noteq> [] \<and> Region ms \<noteq> [] \<and> VoiceName ms \<noteq> [] \<and>
             Rate ms \<noteq> [] \<and> Volume ms \<noteq> [] \<longrightarrow>
               (\<forall>e. ParseFloat rt (Rate ms) = Inl e \<longrightarrow>
                  getTTSConfig rt s = Inl (''invalid rate value: '' @ e))
               \<and> (\<forall>r e. ParseFloat rt (Rate ms) = Inr r \<and> ParseFloat rt (Volume ms) = Inl e \<longrightarrow>
                  getTTSConfig rt s = Inl (''invalid volume value: '' @ e))
               \<and> (\<forall>r v. ParseFloat rt (Rate ms) = Inr r \<and> ParseFloat rt (Volume ms) = Inr v \<longrightarrow>
                  getTTSConfig rt s =
                    Inr \<lparr>Vendor = ''microsoft'',
                         TTSConfig.Params = AnyMap
                           [''key'' \<mapsto> AnyString (MicrosoftTTSConfig.Key ms),
                            ''region'' \<mapsto> AnyString (Region ms),
                            ''voice_name'' \<mapsto> AnyString (VoiceName ms),
                            ''rate'' \<mapsto> AnyFloat64 r,
                            ''volume'' \<mapsto> AnyFloat64 v]\<rparr>)))"
proof (intro conjI allI impI)
  assume "MicrosoftTTS (config s) = None"
  with assms show "\<exists>e. getTTSConfig rt s = Inl e"
    by (simp add: getTTSConfig_microsoft_missing)
next
  fix ms
  assume "MicrosoftTTS (config s) = Some ms"
    and "MicrosoftTTSConfig.Key ms = [] \<or> Region ms = [] \<or> VoiceName ms = [] \<or>
         Rate ms = [] \<or> Volume ms = []"
  then have "getTTSConfig rt s = Inl ''missing Microsoft TTS configuration''"
    using assms by (intro getTTSConfig_microsoft_missing) auto
  then show "\<exists>e. getTTSConfig rt s = Inl e" ..
next
  fix ms e
  assume "MicrosoftTTS (config s) = Some ms"
    and "MicrosoftTTSConfig.Key ms \<noteq> [] \<and> Region ms \<noteq> [] \<and> VoiceName ms \<noteq> [] \<and>
         Rate ms \<noteq> [] \<and> Volume ms \<noteq> []"
    and "ParseFloat rt (Rate ms) = Inl e"
  then show "getTTSConfig rt s = Inl (''invalid rate value: '' @ e)"
    using assms by (simp add: getTTSConfig_microsoft_complete)
next
  fix ms r e
  assume "MicrosoftTTS (config s) = Some ms"
    and "MicrosoftTTSConfig.Key ms \<noteq> [] \<and> Region ms \<noteq> [] \<and> VoiceName ms \<noteq> [] \<and>
         Rate ms \<noteq> [] \<and> Volume ms \<noteq> []"
    and "ParseFloat rt (Rate ms) = Inr r \<and> ParseFloat rt (Volume ms) = Inl e"
  then show "getTTSConfig rt s = Inl (''invalid volume value: '' @ e)"
    using assms by (simp add: getTTSConfig_microsoft_complete)
next
  fix ms r v
  assume "MicrosoftTTS (config s) = Some ms"
    and "MicrosoftTTSConfig.Key ms \<noteq> [] \<and> Region ms \<noteq> [] \<and> VoiceName ms \<noteq> [] \<and>
         Rate ms \<noteq> [] \<and> Volume ms \<noteq> []"
    and "ParseFloat rt (Rate ms) = Inr r \<and> ParseFloat rt (Volume ms) = Inr v"
  then show "getTTSConfig rt s =
      Inr \<lparr>Vendor = ''microsoft'',
           TTSConfig.Params = AnyMap
             [''key'' \<mapsto> AnyString (MicrosoftTTSConfig.Key ms),
              ''region'' \<mapsto> AnyString (Region ms),
              ''voice_name'' \<mapsto> AnyString (VoiceName ms),
              ''rate'' \<mapsto> AnyFloat64 r,
              ''volume'' \<mapsto> AnyFloat64 v]\<rparr>"
    using assms by (simp add: getTTSConfig_microsoft_complete)
qed

theorem getTTSConfig_microsoft_witness:
  "getTTSConfig testRuntime NewTestConvoAIService =
     Inr \<lparr>Vendor = ''microsoft'',
          TTSConfig.Params = AnyMap
            [''key'' \<mapsto> AnyString ''test-ms-key'',
             ''region'' \<mapsto> AnyString ''eastus'',
             ''voice_name'' \<mapsto> AnyString ''en-US-AriaNeural'',
             ''rate'' \<mapsto> AnyFloat64 (Finite 1),
             ''volume'' \<mapsto> AnyFloat64 (Finite 1)]\<rparr>
   \<and> (\<exists>e. getTTSConfig testRuntime (withMicrosoft (testMicrosoft\<lparr>Region := []\<rparr>)) = Inl e)
   \<and> (\<exists>e. getTTSConfig testRuntime (withMicrosoft (testMicrosoft\<lparr>Rate := ''fast''\<rparr>))
          = Inl (''invalid rate value: '' @ e))
   \<and> (\<exists>e. getTTSConfig testRuntime (withMicrosoft (testMicrosoft\<lparr>Volume := ''fast''\<rparr>))
          = Inl (''invalid volume value: '' @ e))
   \<and> (\<exists>e. getTTSConfig testRuntime
          (NewTestConvoAIService\<lparr>config := testConfig\<lparr>MicrosoftTTS := None\<rparr>\<rparr>) = Inl e)"
proof -
  let ?absent = "NewTestConvoAIService\<lparr>config := testConfig\<lparr>MicrosoftTTS := None\<rparr>\<rparr>"
  have "TTSVendor (config ?absent) = ''microsoft''"
    by (simp add: testConfig_def)
  from getTTSConfig_microsoft [OF this, of testRuntime]
  have absent: "\<exists>e. getTTSConfig testRuntime ?absent = Inl e"
    by simp
  have pf: "ParseFloat testRuntime = testParseFloat"
    by (simp add: testRuntime_def)
  have v: "TTSVendor (config (withMicrosoft ms)) = ''microsoft''" for ms
    by (simp add: withMicrosoft_def testConfig_def)
  have m: "MicrosoftTTS (config (withMicrosoft ms)) = Some ms" for ms
    by (simp add: withMicrosoft_def)
  have base: "NewTestConvoAIService = withMicrosoft testMicrosoft"
    by (simp add: withMicrosoft_def NewTestConvoAIService_def testConfig_def)
  note T = getTTSConfig_microsoft [OF v, where rt = testRuntime, THEN conjunct2, rule_format, OF m]
  have "getTTSConfig testRuntime NewTestConvoAIService =
     Inr \<lparr>Vendor = ''microsoft'',
          TTSConfig.Params = AnyMap
            [''key'' \<mapsto> AnyString ''test-ms-key'',
             ''region'' \<mapsto> AnyString ''eastus'',
             ''voice_name'' \<mapsto> AnyString ''en-US-AriaNeural'',
             ''rate'' \<mapsto> AnyFloat64 (Finite 1),
             ''volume'' \<mapsto> AnyFloat64 (Finite 1)]\<rparr>"
    using T [of testMicrosoft] unfolding base [symmetric]
    by (simp add: pf testParseFloat_def testMicrosoft_def)
  moreover have "\<exists>e. getTTSConfig testRuntime (withMicrosoft (testMicrosoft\<lparr>Region := []\<rparr>)) = Inl e"
    using T [of "testMicrosoft\<lparr>Region := []\<rparr>"] by simp
  moreover have "\<exists>e. getTTSConfig testRuntime (withMicrosoft (testMicrosoft\<lparr>Rate := ''fast''\<rparr>))
          = Inl (''invalid rate value: '' @ e)"
    using T [of "testMicrosoft\<lparr>Rate := ''fast''\<rparr>"]
    by (simp add: pf testParseFloat_def testMicrosoft_def)
  moreover have "\<exists>e. getTTSConfig testRuntime (withMicrosoft (testMicrosoft\<lparr>Volume := ''fast''\<rparr>))
          = Inl (''invalid volume value: '' @ e)"
    using T [of "testMicrosoft\<lparr>Volume := ''fast''\<rparr>"]
    by (simp add: pf testParseFloat_def testMicrosoft_def)
  ultimately show ?thesis
    using absent by (intro conjI)
qed

text \<open>
  C7, as stated, fails: a missing credential field is not named by the error. With the
  Microsoft region empty the message is the same as with the voice name empty, and with
  the ElevenLabs voice identifier empty it is the same as with the model identifier
  empty.
\<close>

theorem getTTSConfig_field_not_named:
  "getTTSConfig testRuntime (withMicrosoft (testMicrosoft\<lparr>Region := []\<rparr>))
     = Inl ''missing Microsoft TTS configuration''
   \<and> getTTSConfig testRuntime (withMicrosoft (testMicrosoft\<lparr>VoiceName := []\<rparr>))
     = Inl ''missing Microsoft TTS configuration''
   \<and> getTTSConfig testRuntime
       (NewTestConvoAIService\<lparr>config := testConfig
          \<lparr>TTSVendor := ''elevenlabs'',
           ElevenLabsTTS := Some \<lparr>ElevenLabsTTSConfig.Key = ''test-key'', VoiceID = [],
                                  ModelID = ''model-id''\<rparr>\<rparr>\<rparr>)
     = Inl ''missing ElevenLabs TTS configuration''
   \<and> getTTSConfig testRuntime
       (NewTestConvoAIService\<lparr>config := testConfig
          \<lparr>TTSVendor := ''elevenlabs'',
           ElevenLabsTTS := Some \<lparr>ElevenLabsTTSConfig.Key = ''test-key'', VoiceID = ''voice-id'',
                                  ModelID = []\<rparr>\<rparr>\<rparr>)
     = Inl ''missing ElevenLabs TTS configuration''"
proof -
  have "TTSVendor (config (withMicrosoft ms)) = ''microsoft''"
    and "MicrosoftTTS (config (withMicrosoft ms)) = Some ms" for ms
    by (simp_all add: withMicrosoft_def testConfig_def)
  then have ms: "Region ms = [] \<or> VoiceName ms = [] \<Longrightarrow>
      getTTSConfig testRuntime (withMicrosoft ms) = Inl ''missing Microsoft TTS configuration''" for ms
    by (intro getTTSConfig_microsoft_missing) auto
  have el: "VoiceID el = [] \<or> ModelID el = [] \<Longrightarrow>
      getTTSConfig testRuntime
        (NewTestConvoAIService\<lparr>config := testConfig
           \<lparr>TTSVendor := ''elevenlabs'', ElevenLabsTTS := Some el\<rparr>\<rparr>)
      = Inl ''missing ElevenLabs TTS configuration''" for el
    by (intro getTTSConfig_elevenlabs_missing) auto
  show ?thesis
    by (intro conjI ms el) simp_all
qed

text \<open>
  C7, amended. When a required credential field of the selected vendor is missing or
  empty, the error of \<open>getTTSConfig\<close> is \<open>missing Microsoft TTS configuration\<close> or
  \<open>missing ElevenLabs TTS configuration\<close>: it names the vendor, and is the same for every
  field of that vendor. For an unrecognized vendor tag the error is
  \<open>unsupported TTS vendor:\<close> followed by the tag. These, and the two parse errors of the
  Microsoft rate and volume, are all the errors \<open>getTTSConfig\<close> returns.
\<close>

theorem getTTSConfig_errors:
  "(TTSVendor (config s) = ''microsoft'' \<and>
      (MicrosoftTTS (config s) = None \<or>
       (\<exists>ms. MicrosoftTTS (config s) = Some ms \<and>
          (MicrosoftTTSConfig.Key ms = [] \<or> Region ms = [] \<or> VoiceName ms = [] \<or>
           Rate ms = [] \<or> Volume ms = []))) \<longrightarrow>
      getTTSConfig rt s = Inl ''missing Microsoft TTS configuration'')
   \<and> (TTSVendor (config s) = ''elevenlabs'' \<and>
      (ElevenLabsTTS (config s) = None \<or>
       (\<exists>el. ElevenLabsTTS (config s) = Some el \<and>
          (ElevenLabsTTSConfig.Key el = [] \<or> ModelID el = [] \<or> VoiceID el = []))) \<longrightarrow>
      getTTSConfig rt s = Inl ''missing ElevenLabs TTS configuration'')
   \<and> (TTSVendor (config s) \<noteq> ''microsoft'' \<and> TTSVendor (config s) \<noteq> ''elevenlabs'' \<longrightarrow>
      getTTSConfig rt s = Inl (''unsupported TTS vendor: '' @ TTSVendor (config s)))
   \<and> (\<forall>e. getTTSConfig rt s = Inl e \<longrightarrow>
        e = ''missing Microsoft TTS configuration''
        \<or> e = ''missing ElevenLabs TTS configuration''
        \<or> e = ''unsupported TTS vendor: '' @ TTSVendor (config s)
        \<or> (\<exists>x. e = ''invalid rate value: '' @ x)
        \<or> (\<exists>x. e = ''invalid volume value: '' @ x))"
proof (intro conjI allI impI)
  fix e
  assume e: "getTTSConfig rt s = Inl e"
  let ?thesis = "e = ''missing Microsoft TTS configuration''
        \<or> e = ''missing ElevenLabs TTS configuration''
        \<or> e = ''unsupported TTS vendor: '' @ TTSVendor (config s)
        \<or> (\<exists>x. e = ''invalid rate value: '' @ x)
        \<or> (\<exists>x. e = ''invalid volume value: '' @ x)"
  consider (ms) "TTSVendor (config s) = ''microsoft''"
    | (el) "TTSVendor (config s) = ''elevenlabs''"
    | (other) "TTSVendor (config s) \<noteq> ''microsoft''" "TTSVendor (config s) \<noteq> ''elevenlabs''"
    by blast
  then show ?thesis
  proof cases
    case ms
    show ?thesis
    proof (cases "MicrosoftTTS (config s) = None \<or>
         (\<exists>ms. MicrosoftTTS (config s) = Some ms \<and>
           (MicrosoftTTSConfig.Key ms = [] \<or> Region ms = [] \<or> VoiceName ms = [] \<or>
            Rate ms = [] \<or> Volume ms = []))")
      case True
      from getTTSConfig_microsoft_missing [OF ms True, of rt] e
      have "e = ''missing Microsoft TTS configuration''" by simp
      then show ?thesis by (rule disjI1)
    next
      case False
      then obtain m where "MicrosoftTTS (config s) = Some m"
        and "MicrosoftTTSConfig.Key m \<noteq> []" "Region m \<noteq> []" "VoiceName m \<noteq> []"
          "Rate m \<noteq> []" "Volume m \<noteq> []"
        by auto
      from getTTSConfig_microsoft_complete [OF ms this, of rt] e
      have "(\<exists>x. e = ''invalid rate value: '' @ x) \<or> (\<exists>x. e = ''invalid volume value: '' @ x)"
        by (auto split: sum.splits)
      then show ?thesis by blast
    qed
  next
    case el
    show ?thesis
    proof (cases "ElevenLabsTTS (config s) = None \<or>
         (\<exists>el. ElevenLabsTTS (config s) = Some el \<and>
           (ElevenLabsTTSConfig.Key el = [] \<or> ModelID el = [] \<or> VoiceID el = []))")
      case True
      from getTTSConfig_elevenlabs_missing [OF el True, of rt] e
      have "e = ''missing ElevenLabs TTS configuration''" by simp
      then show ?thesis by (intro disjI2 disjI1)
    next
      case False
      then obtain l where "ElevenLabsTTS (config s) = Some l"
        and "ElevenLabsTTSConfig.Key l \<noteq> []" "ModelID l \<noteq> []" "VoiceID l \<noteq> []"
        by auto
      from getTTSConfig_elevenlabs_complete [OF el this, of rt] e
      show ?thesis by simp
    qed
  next
    case other
    from getTTSConfig_unsupported [OF other, of rt] e
    have "e = ''unsupported TTS vendor: '' @ TTSVendor (config s)" by simp
    then show ?thesis by (intro disjI2 disjI1)
  qed
qed (simp_all add: getTTSConfig_microsoft_missing getTTSConfig_elevenlabs_missing
    getTTSConfig_unsupported)

theorem getTTSConfig_errors_witness:
  "getTTSConfig testRuntime (withMicrosoft (testMicrosoft\<lparr>MicrosoftTTSConfig.Key := []\<rparr>))
     = Inl ''missing Microsoft TTS configuration''
   \<and> getTTSConfig testRuntime (withVendor ''elevenlabs'')
     = Inl ''missing ElevenLabs TTS configuration''
   \<and> getTTSConfig testRuntime (withVendor ''unsupported'')
     = Inl ''unsupported TTS vendor: unsupported''"
proof -
  have ms: "TTSVendor (config (withMicrosoft m)) = ''microsoft''"
    "MicrosoftTTS (config (withMicrosoft m)) = Some m" for m
    by (simp_all add: withMicrosoft_def testConfig_def)
  have v: "TTSVendor (config (withVendor t)) = t"
    "ElevenLabsTTS (config (withVendor t)) = None" for t
    by (simp_all add: withVendor_def testConfig_def)
  have "getTTSConfig testRuntime (withMicrosoft (testMicrosoft\<lparr>MicrosoftTTSConfig.Key := []\<rparr>))
     = Inl ''missing Microsoft TTS configuration''"
    using getTTSConfig_errors
      [of "withMicrosoft (testMicrosoft\<lparr>MicrosoftTTSConfig.Key := []\<rparr>)" testRuntime]
    by (simp only: ms) simp
  moreover have "getTTSConfig testRuntime (withVendor ''elevenlabs'')
     = Inl ''missing ElevenLabs TTS configuration''"
    using getTTSConfig_errors [of "withVendor ''elevenlabs''" testRuntime]
    by (simp only: v) simp
  moreover have "getTTSConfig testRuntime (withVendor ''unsupported'')
     = Inl ''unsupported TTS vendor: unsupported''"
    using getTTSConfig_errors [of "withVendor ''unsupported''" testRuntime]
    by (simp only: v) simp
  ultimately show ?thesis
    by (intro conjI)
qed

section \<open>The stages of HandleInviteAgent\<close>

lemma HandleInviteAgent_token_error:
  assumes "tokenService s (tokenReq req) = Inl err"
  shows "HandleInviteAgent rt s req =
    ([GenRtcToken (tokenReq req)], Inl (Error (''failed to generate token: '' @ err)))"
  using assms by (simp add: HandleInviteAgent_def)

lemma HandleInviteAgent_vendor_error:
  assumes "tokenService s (tokenReq req) = Inr token" and "getTTSConfig rt s = Inl err"
  shows "HandleInviteAgent rt s req =
    ([GenRtcToken (tokenReq req), GetTTSConfig],
     Inl (Error (''failed to get TTS config: '' @ err)))"
  using assms by (simp add: HandleInviteAgent_def)

lemma HandleInviteAgent_not_sent:
  assumes "tokenService s (tokenReq req) = Inr token" and "getTTSConfig rt s = Inr ttsConfig"
    and "Marshal rt (agoraReq rt s req token ttsConfig) = Inl err
         \<or> (\<exists>jsonData. Marshal rt (agoraReq rt s req token ttsConfig) = Inr jsonData)
             \<and> NewRequestError rt ''POST'' (joinURL s) \<noteq> None"
  shows "fst (HandleInviteAgent rt s req) =
    [GenRtcToken (tokenReq req), GetTTSConfig, JsonMarshal (agoraReq rt s req token ttsConfig)]"
  using assms by (auto simp: HandleInviteAgent_def Let_def split: sum.splits)

lemma HandleInviteAgent_sent:
  assumes "tokenService s (tokenReq req) = Inr token" and "getTTSConfig rt s = Inr ttsConfig"
    and "Marshal rt (agoraReq rt s req token ttsConfig) = Inr jsonData"
    and "NewRequestError rt ''POST'' (joinURL s) = None"
  shows "HandleInviteAgent rt s req =
    ([GenRtcToken (tokenReq req), GetTTSConfig, JsonMarshal (agoraReq rt s req token ttsConfig),
      ClientDo (joinRequest rt s jsonData)],
     (case Do rt (joinRequest rt s jsonData) of
        Inl err \<Rightarrow>
          Inl (Error (''failed to send request: '' @ err @ '' (URL: '' @ joinURL s @ '')''))
      | Inr resp \<Rightarrow>
          if StatusCode resp \<noteq> 200 then
            Inl (Error (''failed to start conversation: status='' @ fmt_d (StatusCode resp)
              @ '', body='' @ Body resp @ '', url='' @ joinURL s
              @ '', headers=map[Authorization:['' @ getBasicAuth rt s
              @ ''] Content-Type:[application/json]]''))
          else
            (case Decode rt (Body resp) of
               Inl err \<Rightarrow> Inl (Error (''failed to decode response: '' @ err))
             | Inr agoraResp \<Rightarrow>
                 (case agoraResp ''agent_id'' of
                    Some (AnyString agentID) \<Rightarrow>
                      Inr \<lparr>InviteAgentResponse.AgentID = agentID, CreateTS = Unix rt,
                           Status = ''RUNNING''\<rparr>
                  | _ \<Rightarrow> Inl Panic))))"
  using assms
  by (simp add: HandleInviteAgent_def Let_def split: sum.splits option.splits any.splits)

lemma HandleInviteAgent_JsonMarshal:
  "JsonMarshal p \<in> set (fst (HandleInviteAgent rt s req)) \<longleftrightarrow>
     (\<exists>token ttsConfig. tokenService s (tokenReq req) = Inr token
        \<and> getTTSConfig rt s = Inr ttsConfig \<and> p = agoraReq rt s req token ttsConfig)"
proof (cases "tokenService s (tokenReq req)")
  case (Inl err)
  then show ?thesis
    by (simp add: HandleInviteAgent_token_error)
next
  case token: (Inr token)
  show ?thesis
  proof (cases "getTTSConfig rt s")
    case (Inl err)
    with token show ?thesis
      by (simp add: HandleInviteAgent_vendor_error)
  next
    case tts: (Inr ttsConfig)
    show ?thesis
    proof (cases "Marshal rt (agoraReq rt s req token ttsConfig)")
      case (Inl err)
      with token tts show ?thesis
        by (auto simp: HandleInviteAgent_not_sent)
    next
      case marshal: (Inr jsonData)
      show ?thesis
      proof (cases "NewRequestError rt ''POST'' (joinURL s)")
        case None
        with token tts marshal show ?thesis
          by (auto simp: HandleInviteAgent_sent)
      next
        case (Some err)
        with token tts marshal show ?thesis
          by (auto simp: HandleInviteAgent_not_sent)
      qed
    qed
  qed
qed

section \<open>The test service at work\<close>

lemma test_getTTSConfig: "getTTSConfig testRuntime NewTestConvoAIService = Inr testTTS"
proof -
  have "TTSVendor (config NewTestConvoAIService) = ''microsoft''"
    and "MicrosoftTTS (config NewTestConvoAIService) = Some testMicrosoft"
    by (simp_all add: NewTestConvoAIService_def testConfig_def)
  from getTTSConfig_microsoft_complete [OF this, of testRuntime]
  show ?thesis
    by (simp add: testMicrosoft_def testRuntime_def testParseFloat_def testTTS_def)
qed

lemma test_tokenService [simp]:
  "tokenService NewTestConvoAIService r = Inr ''mock-rtc-token''"
  by (simp add: NewTestConvoAIService_def MockTokenService_def)

lemma test_JsonMarshal:
  assumes "tokenService s = MockTokenService" and "config s = testConfig"
  shows "JsonMarshal (agoraReq testRuntime s req ''mock-rtc-token'' testTTS)
     \<in> set (fst (HandleInviteAgent testRuntime s req))"
proof -
  have "NewTestConvoAIService = s"
    using assms by (simp add: NewTestConvoAIService_def)
  with test_getTTSConfig have "getTTSConfig testRuntime s = Inr testTTS"
    by simp
  moreover have "tokenService s (tokenReq req) = Inr ''mock-rtc-token''"
    using assms by (simp add: MockTokenService_def)
  ultimately show ?thesis
    unfolding HandleInviteAgent_JsonMarshal by blast
qed

section \<open>The start request\<close>








text \<open>
  C10. \<open>getRemoteRtcUIDs\<close> returns the one-element list of the requester identity it is
  given, for \<open>"0"\<close> as for any other identity, and this is the list of remote identities
  in the start request that \<open>HandleInviteAgent\<close> builds.
\<close>

theorem getRemoteRtcUIDs_single:
  "getRemoteRtcUIDs requesterID = Some [requesterID]
   \<and> (\<forall>p. JsonMarshal p \<in> set (fst (HandleInviteAgent rt s req)) \<longrightarrow>
        RemoteRtcUIDs (Properties p) = Some [RequesterID req])"
  unfolding HandleInviteAgent_JsonMarshal
  by (auto simp: agoraReq_def Let_def getRemoteRtcUIDs_def)

theorem getRemoteRtcUIDs_single_witness:
  "getRemoteRtcUIDs ''0'' = Some [''0'']
   \<and> (\<exists>p. JsonMarshal p \<in> set (fst (HandleInviteAgent testRuntime NewTestConvoAIService
            (testRequest\<lparr>RequesterID := ''0''\<rparr>)))
        \<and> RemoteRtcUIDs (Properties p) = Some [''0''])"
proof -
  have "JsonMarshal (agoraReq testRuntime NewTestConvoAIService (testRequest\<lparr>RequesterID := ''0''\<rparr>)
          ''mock-rtc-token'' testTTS)
      \<in> set (fst (HandleInviteAgent testRuntime NewTestConvoAIService
            (testRequest\<lparr>RequesterID := ''0''\<rparr>)))"
    by (rule test_JsonMarshal) (simp_all add: NewTestConvoAIService_def)
  with getRemoteRtcUIDs_single
    [of "''0''" testRuntime NewTestConvoAIService "testRequest\<lparr>RequesterID := ''0''\<rparr>"]
  show ?thesis
    by (auto simp del: set_simps)
qed

section \<open>Validation\<close>

text \<open>
  C8. \<open>validateInviteRequest\<close> accepts a request exactly if the requester identity is
  non-empty, the channel name is non-empty and the length of the channel name is between
  3 and 64. A rejected request gets the message of the first condition it violates, and
  the handler \<open>InviteAgent\<close> answers it with status 400 and that message without making
  any call: no token, no vendor resolution, no start request, no HTTP request. A request
  that is accepted is passed to \<open>HandleInviteAgent\<close>.
\<close>

theorem validateInviteRequest_accepts:
  "(validateInviteRequest req = None \<longleftrightarrow>
      RequesterID req \<noteq> [] \<and> ChannelName req \<noteq> []
      \<and> 3 \<le> length (ChannelName req) \<and> length (ChannelName req) \<le> 64)
   \<and> (RequesterID req = [] \<longrightarrow>
        validateInviteRequest req = Some ''requester_id is required'')
   \<and> (RequesterID req \<noteq> [] \<and> ChannelName req = [] \<longrightarrow>
        validateInviteRequest req = Some ''channel_name is required'')
   \<and> (RequesterID req \<noteq> [] \<and> ChannelName req \<noteq> []
        \<and> (length (ChannelName req) < 3 \<or> 64 < length (ChannelName req)) \<longrightarrow>
        validateInviteRequest req =
          Some ''channel_name length must be between 3 and 64 characters'')
   \<and> (\<forall>err. validateInviteRequest req = Some err \<longrightarrow>
        InviteAgent rt s (Inr req) = ([], JSON 400 (ErrorBody err)))
   \<and> (validateInviteRequest req = None \<longrightarrow>
        fst (InviteAgent rt s (Inr req)) = fst (HandleInviteAgent rt s req))"
proof (intro conjI allI impI)
  show "validateInviteRequest req = None \<longleftrightarrow>
      RequesterID req \<noteq> [] \<and> ChannelName req \<noteq> []
      \<and> 3 \<le> length (ChannelName req) \<and> length (ChannelName req) \<le> 64"
    by (auto simp: validateInviteRequest_def)
next
  assume "validateInviteRequest req = None"
  then show "fst (InviteAgent rt s (Inr req)) = fst (HandleInviteAgent rt s req)"
    by (simp add: InviteAgent_def split: prod.splits sum.splits fault.splits)
qed (simp_all add: validateInviteRequest_def InviteAgent_def)

theorem validateInviteRequest_accepts_witness:
  "validateInviteRequest (testRequest\<lparr>ChannelName := ''te''\<rparr>)
     = Some ''channel_name length must be between 3 and 64 characters''
   \<and> InviteAgent testRuntime NewTestConvoAIService (Inr (testRequest\<lparr>ChannelName := ''te''\<rparr>))
     = ([], JSON 400 (ErrorBody ''channel_name length must be between 3 and 64 characters''))
   \<and> validateInviteRequest (testRequest\<lparr>RequesterID := []\<rparr>) = Some ''requester_id is required''
   \<and> validateInviteRequest testRequest = None
   \<and> fst (InviteAgent testRuntime NewTestConvoAIService (Inr testRequest))
     = fst (HandleInviteAgent testRuntime NewTestConvoAIService testRequest)"
proof -
  note short = validateInviteRequest_accepts
    [of "testRequest\<lparr>ChannelName := ''te''\<rparr>" testRuntime NewTestConvoAIService]
  note anonymous = validateInviteRequest_accepts
    [of "testRequest\<lparr>RequesterID := []\<rparr>" testRuntime NewTestConvoAIService]
  note good = validateInviteRequest_accepts [of testRequest testRuntime NewTestConvoAIService]
  have 1: "validateInviteRequest (testRequest\<lparr>ChannelName := ''te''\<rparr>)
     = Some ''channel_name length must be between 3 and 64 characters''"
    using short by (simp add: testRequest_def)
  with short have 2:
    "InviteAgent testRuntime NewTestConvoAIService (Inr (testRequest\<lparr>ChannelName := ''te''\<rparr>))
     = ([], JSON 400 (ErrorBody ''channel_name length must be between 3 and 64 characters''))"
    by blast
  have 3: "validateInviteRequest (testRequest\<lparr>RequesterID := []\<rparr>) = Some ''requester_id is required''"
    using anonymous by simp
  have 4: "validateInviteRequest testRequest = None"
    using good by (simp add: testRequest_def)
  with good have 5: "fst (InviteAgent testRuntime NewTestConvoAIService (Inr testRequest))
     = fst (HandleInviteAgent testRuntime NewTestConvoAIService testRequest)"
    by blast
  from 1 2 3 4 5 show ?thesis
    by (intro conjI)
qed

section \<open>Failures before the platform is called\<close>

text \<open>
  C5. When the token issuer returns an error, \<open>HandleInviteAgent\<close> returns the error
  \<open>failed to generate token:\<close> followed by the issuer's message, and the call to the
  token issuer is the only call it has made: the vendor resolver was not consulted and
  no request went to the agent platform. When the token is issued and the vendor
  resolver returns an error, \<open>HandleInviteAgent\<close> returns the error
  \<open>failed to get TTS config:\<close> followed by the resolver's message, after these two calls
  only: nothing was serialised and no request went to the agent platform.
\<close>

theorem HandleInviteAgent_aborts:
  "(\<forall>err. tokenService s (tokenReq req) = Inl err \<longrightarrow>
      HandleInviteAgent rt s req =
        ([GenRtcToken (tokenReq req)], Inl (Error (''failed to generate token: '' @ err)))
      \<and> GetTTSConfig \<notin> set (fst (HandleInviteAgent rt s req))
      \<and> (\<forall>h. ClientDo h \<notin> set (fst (HandleInviteAgent rt s req))))
   \<and> (\<forall>token err. tokenService s (tokenReq req) = Inr token \<and> getTTSConfig rt s = Inl err \<longrightarrow>
      HandleInviteAgent rt s req =
        ([GenRtcToken (tokenReq req), GetTTSConfig],
         Inl (Error (''failed to get TTS config: '' @ err)))
      \<and> (\<forall>h. ClientDo h \<notin> set (fst (HandleInviteAgent rt s req))))"
  by (simp add: HandleInviteAgent_token_error HandleInviteAgent_vendor_error)

theorem HandleInviteAgent_aborts_witness:
  "HandleInviteAgent testRuntime
      ((withVendor ''unsupported'')\<lparr>tokenService := FailingTokenService\<rparr>) testRequest
     = ([GenRtcToken (tokenReq testRequest)],
        Inl (Error ''failed to generate token: invalid: missing channel name''))
   \<and> HandleInviteAgent testRuntime (withVendor ''unsupported'') testRequest
     = ([GenRtcToken (tokenReq testRequest), GetTTSConfig],
        Inl (Error ''failed to get TTS config: unsupported TTS vendor: unsupported''))"
proof -
  let ?failing = "(withVendor ''unsupported'')\<lparr>tokenService := FailingTokenService\<rparr>"
  have "tokenService ?failing (tokenReq testRequest) = Inl ''invalid: missing channel name''"
    by (simp add: FailingTokenService_def)
  with HandleInviteAgent_aborts [of ?failing testRequest testRuntime]
  have 1: "HandleInviteAgent testRuntime ?failing testRequest
     = ([GenRtcToken (tokenReq testRequest)],
        Inl (Error (''failed to generate token: '' @ ''invalid: missing channel name'')))"
    by blast
  have "tokenService (withVendor ''unsupported'') (tokenReq testRequest) = Inr ''mock-rtc-token''"
    by (simp add: withVendor_def)
  moreover have "getTTSConfig testRuntime (withVendor ''unsupported'')
      = Inl (''unsupported TTS vendor: '' @ ''unsupported'')"
    using getTTSConfig_unsupported [of "withVendor ''unsupported''" testRuntime]
    by (simp add: withVendor_def testConfig_def)
  ultimately have 2: "HandleInviteAgent testRuntime (withVendor ''unsupported'') testRequest
     = ([GenRtcToken (tokenReq testRequest), GetTTSConfig],
        Inl (Error (''failed to get TTS config: '' @ ''unsupported TTS vendor: '' @ ''unsupported'')))"
    using HandleInviteAgent_aborts [of "withVendor ''unsupported''" testRequest testRuntime]
    by blast
  from 1 2 show ?thesis
    by simp
qed

section \<open>The answers of the agent platform\<close>

lemma getTTSConfig_ParseFloat:
  assumes "ParseFloat rt' = ParseFloat rt"
  shows "getTTSConfig rt' s = getTTSConfig rt s"
  unfolding getTTSConfig_def assms ..

lemma HandleInviteAgent_answered_200:
  assumes "tokenService s (tokenReq req) = Inr token"
    and "getTTSConfig rt s = Inr ttsConfig"
    and "Marshal rt (agoraReq rt s req token ttsConfig) = Inr jsonData"
    and "NewRequestError rt ''POST'' (joinURL s) = None"
    and "Do rt (joinRequest rt s jsonData) = Inr resp"
    and "StatusCode resp = 200"
    and "Decode rt (Body resp) = Inr agoraResp"
  shows "(\<forall>agentID. agoraResp ''agent_id'' = Some (AnyString agentID) \<longrightarrow>
            snd (HandleInviteAgent rt s req) =
              Inr \<lparr>InviteAgentResponse.AgentID = agentID, CreateTS = Unix rt,
                   Status = ''RUNNING''\<rparr>)
    \<and> ((\<forall>agentID. agoraResp ''agent_id'' \<noteq> Some (AnyString agentID)) \<longrightarrow>
            snd (HandleInviteAgent rt s req) = Inl Panic)"
proof -
  have "snd (HandleInviteAgent rt s req) =
      (case agoraResp ''agent_id'' of
         Some (AnyString agentID) \<Rightarrow>
           Inr \<lparr>InviteAgentResponse.AgentID = agentID, CreateTS = Unix rt,
                Status = ''RUNNING''\<rparr>
       | _ \<Rightarrow> Inl Panic)"
    using assms(5-7) unfolding HandleInviteAgent_sent [OF assms(1-4)] by simp
  then show ?thesis
    by (auto split: option.splits any.splits)
qed

lemma HandleInviteAgent_response:
  assumes "snd (HandleInviteAgent rt s req) = Inr r"
  shows "\<exists>token ttsConfig jsonData resp agoraResp.
      tokenService s (tokenReq req) = Inr token
      \<and> getTTSConfig rt s = Inr ttsConfig
      \<and> Marshal rt (agoraReq rt s req token ttsConfig) = Inr jsonData
      \<and> NewRequestError rt ''POST'' (joinURL s) = None
      \<and> Do rt (joinRequest rt s jsonData) = Inr resp
      \<and> StatusCode resp = 200
      \<and> Decode rt (Body resp) = Inr agoraResp
      \<and> agoraResp ''agent_id'' = Some (AnyString (InviteAgentResponse.AgentID r))
      \<and> r = \<lparr>InviteAgentResponse.AgentID = InviteAgentResponse.AgentID r,
              CreateTS = Unix rt, Status = ''RUNNING''\<rparr>"
proof (cases "tokenService s (tokenReq req)")
  case (Inl err)
  with assms show ?thesis
    by (simp add: HandleInviteAgent_token_error)
next
  case token: (Inr token)
  show ?thesis
  proof (cases "getTTSConfig rt s")
    case (Inl err)
    with assms token show ?thesis
      by (simp add: HandleInviteAgent_vendor_error)
  next
    case tts: (Inr ttsConfig)
    show ?thesis
    proof (cases "Marshal rt (agoraReq rt s req token ttsConfig)")
      case (Inl err)
      with assms token tts show ?thesis
        by (simp add: HandleInviteAgent_def Let_def)
    next
      case marshal: (Inr jsonData)
      show ?thesis
      proof (cases "NewRequestError rt ''POST'' (joinURL s)")
        case (Some err)
        with assms token tts marshal show ?thesis
          by (simp add: HandleInviteAgent_def Let_def)
      next
        case None
        from assms show ?thesis
          unfolding HandleInviteAgent_sent [OF token tts marshal None]
          using token tts marshal None
          by (auto split: sum.splits if_splits option.splits any.splits)
      qed
    qed
  qed
qed

text \<open>
  C6. Take an invitation for which the token is issued, the vendor is resolved, the
  start request is serialised and sent, the platform answers with status 200 and the
  body is decoded. If the decoded body has a string under \<open>agent_id\<close>,
  \<open>HandleInviteAgent\<close> returns the response with that string as agent identifier, status
  \<open>RUNNING\<close> and the time read from the clock. If \<open>agent_id\<close> is missing or is not a
  string, \<open>HandleInviteAgent\<close> panics: it returns neither a response nor an error.
  Conversely, whenever \<open>HandleInviteAgent\<close> returns a response, all of this has happened:
  the platform was called and answered with status 200, the body was decoded, it has a
  string under \<open>agent_id\<close>, and the response is that string with the time read from the
  clock and status \<open>RUNNING\<close>.
\<close>

theorem HandleInviteAgent_agent_id:
  "(\<forall>token ttsConfig jsonData resp agoraResp.
      tokenService s (tokenReq req) = Inr token
      \<and> getTTSConfig rt s = Inr ttsConfig
      \<and> Marshal rt (agoraReq rt s req token ttsConfig) = Inr jsonData
      \<and> NewRequestError rt ''POST'' (joinURL s) = None
      \<and> Do rt (joinRequest rt s jsonData) = Inr resp
      \<and> StatusCode resp = 200
      \<and> Decode rt (Body resp) = Inr agoraResp \<longrightarrow>
        (\<forall>agentID. agoraResp ''agent_id'' = Some (AnyString agentID) \<longrightarrow>
            snd (HandleInviteAgent rt s req) =
              Inr \<lparr>InviteAgentResponse.AgentID = agentID, CreateTS = Unix rt,
                   Status = ''RUNNING''\<rparr>)
        \<and> ((\<forall>agentID. agoraResp ''agent_id'' \<noteq> Some (AnyString agentID)) \<longrightarrow>
            snd (HandleInviteAgent rt s req) = Inl Panic))
   \<and> (\<forall>r. snd (HandleInviteAgent rt s req) = Inr r \<longrightarrow>
        (\<exists>token ttsConfig jsonData resp agoraResp.
            tokenService s (tokenReq req) = Inr token
            \<and> getTTSConfig rt s = Inr ttsConfig
            \<and> Marshal rt (agoraReq rt s req token ttsConfig) = Inr jsonData
            \<and> NewRequestError rt ''POST'' (joinURL s) = None
            \<and> Do rt (joinRequest rt s jsonData) = Inr resp
            \<and> StatusCode resp = 200
            \<and> Decode rt (Body resp) = Inr agoraResp
            \<and> agoraResp ''agent_id'' = Some (AnyString (InviteAgentResponse.AgentID r))
            \<and> r = \<lparr>InviteAgentResponse.AgentID = InviteAgentResponse.AgentID r,
                    CreateTS = Unix rt, Status = ''RUNNING''\<rparr>))"
proof (intro conjI allI impI)
  fix token ttsConfig jsonData resp agoraResp
  assume "tokenService s (tokenReq req) = Inr token
      \<and> getTTSConfig rt s = Inr ttsConfig
      \<and> Marshal rt (agoraReq rt s req token ttsConfig) = Inr jsonData
      \<and> NewRequestError rt ''POST'' (joinURL s) = None
      \<and> Do rt (joinRequest rt s jsonData) = Inr resp
      \<and> StatusCode resp = 200
      \<and> Decode rt (Body resp) = Inr agoraResp"
  then have answered: "tokenService s (tokenReq req) = Inr token"
    "getTTSConfig rt s = Inr ttsConfig"
    "Marshal rt (agoraReq rt s req token ttsConfig) = Inr jsonData"
    "NewRequestError rt ''POST'' (joinURL s) = None"
    "Do rt (joinRequest rt s jsonData) = Inr resp"
    "StatusCode resp = 200"
    "Decode rt (Body resp) = Inr agoraResp"
    by simp_all
  note both = HandleInviteAgent_answered_200 [OF answered]
  {
    fix agentID
    assume "agoraResp ''agent_id'' = Some (AnyString agentID)"
    with both show "snd (HandleInviteAgent rt s req) =
        Inr \<lparr>InviteAgentResponse.AgentID = agentID, CreateTS = Unix rt, Status = ''RUNNING''\<rparr>"
      by blast
  }
  {
    assume "\<forall>agentID. agoraResp ''agent_id'' \<noteq> Some (AnyString agentID)"
    with both show "snd (HandleInviteAgent rt s req) = Inl Panic"
      by blast
  }
next
  fix r
  assume "snd (HandleInviteAgent rt s req) = Inr r"
  then show "\<exists>token ttsConfig jsonData resp agoraResp.
      tokenService s (tokenReq req) = Inr token
      \<and> getTTSConfig rt s = Inr ttsConfig
      \<and> Marshal rt (agoraReq rt s req token ttsConfig) = Inr jsonData
      \<and> NewRequestError rt ''POST'' (joinURL s) = None
      \<and> Do rt (joinRequest rt s jsonData) = Inr resp
      \<and> StatusCode resp = 200
      \<and> Decode rt (Body resp) = Inr agoraResp
      \<and> agoraResp ''agent_id'' = Some (AnyString (InviteAgentResponse.AgentID r))
      \<and> r = \<lparr>InviteAgentResponse.AgentID = InviteAgentResponse.AgentID r,
              CreateTS = Unix rt, Status = ''RUNNING''\<rparr>"
    by (rule HandleInviteAgent_response)
qed

theorem HandleInviteAgent_agent_id_witness:
  "snd (HandleInviteAgent testRuntime NewTestConvoAIService testRequest)
     = Inr \<lparr>InviteAgentResponse.AgentID = ''test-agent-123'', CreateTS = 1700000000,
            Status = ''RUNNING''\<rparr>
   \<and> snd (HandleInviteAgent (answering 200 ''{}'') NewTestConvoAIService testRequest)
     = Inl Panic
   \<and> (\<forall>r. snd (HandleInviteAgent (answering 500 ''boom'') NewTestConvoAIService testRequest)
          \<noteq> Inr r)"
proof -
  have tts: "getTTSConfig (answering st b) NewTestConvoAIService = Inr testTTS" for st b
  proof -
    have "ParseFloat (answering st b) = ParseFloat testRuntime"
      by (simp add: answering_def)
    then have "getTTSConfig (answering st b) NewTestConvoAIService
        = getTTSConfig testRuntime NewTestConvoAIService"
      by (rule getTTSConfig_ParseFloat)
    then show ?thesis
      by (simp add: test_getTTSConfig)
  qed
  have 1: "snd (HandleInviteAgent testRuntime NewTestConvoAIService testRequest)
     = Inr \<lparr>InviteAgentResponse.AgentID = ''test-agent-123'', CreateTS = Unix testRuntime,
            Status = ''RUNNING''\<rparr>"
  proof -
    have "tokenService NewTestConvoAIService (tokenReq testRequest) = Inr ''mock-rtc-token''
        \<and> getTTSConfig testRuntime NewTestConvoAIService = Inr testTTS
        \<and> Marshal testRuntime
            (agoraReq testRuntime NewTestConvoAIService testRequest ''mock-rtc-token'' testTTS)
          = Inr ''{}''
        \<and> NewRequestError testRuntime ''POST'' (joinURL NewTestConvoAIService) = None
        \<and> Do testRuntime (joinRequest testRuntime NewTestConvoAIService ''{}'')
          = Inr \<lparr>StatusCode = 200, Body = mockResponse\<rparr>
        \<and> StatusCode \<lparr>StatusCode = 200, Body = mockResponse\<rparr> = 200
        \<and> Decode testRuntime (Body \<lparr>StatusCode = 200, Body = mockResponse\<rparr>)
          = Inr [''agent_id'' \<mapsto> AnyString ''test-agent-123'']"
      by (simp add: test_getTTSConfig) (simp add: testRuntime_def MockHTTPClient_def testDecode_def)
    from HandleInviteAgent_agent_id [THEN conjunct1, rule_format, OF this, THEN conjunct1]
    show ?thesis
      by simp
  qed
  have 2: "snd (HandleInviteAgent (answering 200 ''{}'') NewTestConvoAIService testRequest)
     = Inl Panic"
  proof -
    have "tokenService NewTestConvoAIService (tokenReq testRequest) = Inr ''mock-rtc-token''
        \<and> getTTSConfig (answering 200 ''{}'') NewTestConvoAIService = Inr testTTS
        \<and> Marshal (answering 200 ''{}'')
            (agoraReq (answering 200 ''{}'') NewTestConvoAIService testRequest
               ''mock-rtc-token'' testTTS)
          = Inr ''{}''
        \<and> NewRequestError (answering 200 ''{}'') ''POST'' (joinURL NewTestConvoAIService) = None
        \<and> Do (answering 200 ''{}'')
            (joinRequest (answering 200 ''{}'') NewTestConvoAIService ''{}'')
          = Inr \<lparr>StatusCode = 200, Body = ''{}''\<rparr>
        \<and> StatusCode \<lparr>StatusCode = 200, Body = ''{}''\<rparr> = 200
        \<and> Decode (answering 200 ''{}'') (Body \<lparr>StatusCode = 200, Body = ''{}''\<rparr>)
          = Inr Map.empty"
      by (simp add: tts)
        (simp add: answering_def testRuntime_def testDecode_def mockResponse_def)
    from HandleInviteAgent_agent_id [THEN conjunct1, rule_format, OF this, THEN conjunct2]
    show ?thesis
      by simp
  qed
  have 3: "snd (HandleInviteAgent (answering 500 ''boom'') NewTestConvoAIService testRequest)
      \<noteq> Inr r" for r
  proof
    assume "snd (HandleInviteAgent (answering 500 ''boom'') NewTestConvoAIService testRequest)
      = Inr r"
    from HandleInviteAgent_agent_id [THEN conjunct2, rule_format, OF this]
    obtain h resp where "Do (answering 500 ''boom'') h = Inr resp" and "StatusCode resp = 200"
      by blast
    then show False
      by (auto simp: answering_def)
  qed
  from 1 2 3 show ?thesis
    by (simp add: testRuntime_def)
qed

lemma HandleRemoveAgent_answered:
  assumes "NewRequestError rt ''POST'' (leaveURL s req) = None"
    and "Do rt (leaveRequest rt s req) = Inr resp"
  shows "HandleRemoveAgent rt s req =
    ([ClientDo (leaveRequest rt s req)],
     if StatusCode resp \<noteq> 200
     then Inl (Error (''failed to remove agent: '' @ fmt_d (StatusCode resp)))
     else Inr \<lparr>Success = True, AgentID = RemoveAgentRequest.AgentID req\<rparr>)"
  using assms by (simp add: HandleRemoveAgent_def Let_def)

lemma HandleRemoveAgent_response:
  assumes "snd (HandleRemoveAgent rt s req) = Inr response"
  shows "response = \<lparr>Success = True, AgentID = RemoveAgentRequest.AgentID req\<rparr>
    \<and> (\<exists>resp. Do rt (leaveRequest rt s req) = Inr resp \<and> StatusCode resp = 200)"
proof (cases "NewRequestError rt ''POST'' (leaveURL s req)")
  case (Some err)
  with assms show ?thesis
    by (simp add: HandleRemoveAgent_def Let_def)
next
  case None
  show ?thesis
  proof (cases "Do rt (leaveRequest rt s req)")
    case (Inl err)
    with None assms show ?thesis
      by (simp add: HandleRemoveAgent_def Let_def)
  next
    case (Inr resp)
    with assms show ?thesis
      unfolding HandleRemoveAgent_answered [OF None Inr]
      by (simp split: if_splits)
  qed
qed

text \<open>
  C9. When the request to the leave endpoint
  \<open>{BaseURL}/{AppID}/agents/{AgentID}/leave\<close> is made and answered, \<open>HandleRemoveAgent\<close>
  has made this one call, and it returns success with the request's agent identifier if
  the status is 200, and otherwise no response but the error \<open>failed to remove agent:\<close>
  followed by the status code in decimal. It returns a response only in the first case.
\<close>

theorem HandleRemoveAgent_leave:
  "URL (leaveRequest rt s req)
     = BaseURL (config s) @ ''/'' @ AppID (config s) @ ''/agents/''
         @ RemoveAgentRequest.AgentID req @ ''/leave''
   \<and> (\<forall>resp. NewRequestError rt ''POST'' (leaveURL s req) = None
         \<and> Do rt (leaveRequest rt s req) = Inr resp \<longrightarrow>
       fst (HandleRemoveAgent rt s req) = [ClientDo (leaveRequest rt s req)]
       \<and> (StatusCode resp = 200 \<longrightarrow>
            snd (HandleRemoveAgent rt s req) =
              Inr \<lparr>Success = True, AgentID = RemoveAgentRequest.AgentID req\<rparr>)
       \<and> (StatusCode resp \<noteq> 200 \<longrightarrow>
            snd (HandleRemoveAgent rt s req) =
              Inl (Error (''failed to remove agent: '' @ fmt_d (StatusCode resp)))))
   \<and> (\<forall>response. snd (HandleRemoveAgent rt s req) = Inr response \<longrightarrow>
         response = \<lparr>Success = True, AgentID = RemoveAgentRequest.AgentID req\<rparr>
         \<and> (\<exists>resp. Do rt (leaveRequest rt s req) = Inr resp \<and> StatusCode resp = 200))"
proof (intro conjI allI impI)
  show "URL (leaveRequest rt s req)
     = BaseURL (config s) @ ''/'' @ AppID (config s) @ ''/agents/''
         @ RemoveAgentRequest.AgentID req @ ''/leave''"
    by (simp add: leaveRequest_def leaveURL_def)
next
  fix response
  assume "snd (HandleRemoveAgent rt s req) = Inr response"
  from HandleRemoveAgent_response [OF this]
  show "response = \<lparr>Success = True, AgentID = RemoveAgentRequest.AgentID req\<rparr>"
    and "\<exists>resp. Do rt (leaveRequest rt s req) = Inr resp \<and> StatusCode resp = 200"
    by blast+
qed (simp_all add: HandleRemoveAgent_answered)

theorem HandleRemoveAgent_leave_witness:
  "HandleRemoveAgent (answering 200 []) NewTestConvoAIService agentRemoval
     = ([ClientDo (leaveRequest (answering 200 []) NewTestConvoAIService agentRemoval)],
        Inr \<lparr>Success = True, AgentID = ''agent-123abc''\<rparr>)
   \<and> HandleRemoveAgent (answering 404 []) NewTestConvoAIService agentRemoval
     = ([ClientDo (leaveRequest (answering 404 []) NewTestConvoAIService agentRemoval)],
        Inl (Error ''failed to remove agent: 404''))
   \<and> URL (leaveRequest (answering 200 []) NewTestConvoAIService agentRemoval)
     = ''https://api.example.com/test-app-id/agents/agent-123abc/leave''"
proof -
  have new: "NewRequestError (answering st []) ''POST'' u = None"
    and do: "Do (answering st []) h = Inr \<lparr>StatusCode = st, Body = []\<rparr>" for st u h
    by (simp_all add: answering_def testRuntime_def)
  note answered = HandleRemoveAgent_leave
    [THEN conjunct2, THEN conjunct1, rule_format, OF conjI, OF new do]
  have "fst (HandleRemoveAgent (answering 200 []) NewTestConvoAIService agentRemoval)
      = [ClientDo (leaveRequest (answering 200 []) NewTestConvoAIService agentRemoval)]"
    and "snd (HandleRemoveAgent (answering 200 []) NewTestConvoAIService agentRemoval)
      = Inr \<lparr>Success = True, AgentID = ''agent-123abc''\<rparr>"
    using answered [of 200 NewTestConvoAIService agentRemoval]
    by (simp_all add: agentRemoval_def)
  then have 1: "HandleRemoveAgent (answering 200 []) NewTestConvoAIService agentRemoval
     = ([ClientDo (leaveRequest (answering 200 []) NewTestConvoAIService agentRemoval)],
        Inr \<lparr>Success = True, AgentID = ''agent-123abc''\<rparr>)"
    by (simp add: prod_eq_iff)
  have "fst (HandleRemoveAgent (answering 404 []) NewTestConvoAIService agentRemoval)
      = [ClientDo (leaveRequest (answering 404 []) NewTestConvoAIService agentRemoval)]"
    and "snd (HandleRemoveAgent (answering 404 []) NewTestConvoAIService agentRemoval)
      = Inl (Error ''failed to remove agent: 404'')"
    using answered [of 404 NewTestConvoAIService agentRemoval]
    by (simp_all add: fmt_d_def fmt_nat.simps)
  then have 2: "HandleRemoveAgent (answering 404 []) NewTestConvoAIService agentRemoval
     = ([ClientDo (leaveRequest (answering 404 []) NewTestConvoAIService agentRemoval)],
        Inl (Error ''failed to remove agent: 404''))"
    by (simp add: prod_eq_iff)
  have 3: "URL (leaveRequest (answering 200 []) NewTestConvoAIService agentRemoval)
     = ''https://api.example.com/test-app-id/agents/agent-123abc/leave''"
    using HandleRemoveAgent_leave
      [THEN conjunct1, of "answering 200 []" NewTestConvoAIService agentRemoval]
    by (simp add: NewTestConvoAIService_def testConfig_def agentRemoval_def)
  from 1 2 3 show ?thesis
    by (intro conjI)
qed

end
